theory Spec2Isabelle
  imports Main "HOL-Library.Word"
begin

section \<open>Protocol constants\<close>

text \<open>
  Modelled from the spec: the message-type enumeration (its header is not among the
  sources). The numeric tags are those of the data-model table: 0 DisplayUpdate,
  1 DisplaySwitch, 2 DisplayUpdateComplete, 3 Mouse, 4 Keyboard, 5 Shutdown.
\<close>

definition DISPLAY_UPDATE :: "32 word" where "DISPLAY_UPDATE = 0"
definition DISPLAY_SWITCH :: "32 word" where "DISPLAY_SWITCH = 1"
definition DISPLAY_UPDATE_COMPLETE :: "32 word" where "DISPLAY_UPDATE_COMPLETE = 2"
definition MOUSE :: "32 word" where "MOUSE = 3"
definition KEYBOARD :: "32 word" where "KEYBOARD = 4"
definition SHUTDOWN :: "32 word" where "SHUTDOWN = 5"

section \<open>The listener (RDPListener.cpp)\<close>

subsection \<open>State, effects and the operating system\<close>

text \<open>
  Modelled from the spec: the declaration of the class (its header) is not among the
  sources. The members are those the source file reads and writes; the target frame
  rate, width, height and format are unsigned 32-bit values as in the data model, the
  port is the \<open>uint16_t\<close> and the numeric id the \<open>int\<close> the constructor receives.

  A peer is an \<open>RDPPeer*\<close>; only its identity matters here. A pointer that may be
  \<open>nullptr\<close> is an option. POSIX never places a mapping at address 0 when
  \<open>mmap\<close> is called without \<open>MAP_FIXED\<close>, so a successful mapping is \<open>Some\<close>.
\<close>

type_synonym peer = nat

record RDPListener =
  shm_buffer :: "nat option"
  port :: "16 word"
  uuid :: string
  vm_id :: int
  authenticating :: bool
  targetFPS :: "32 word"
  credential_path :: string
  stop :: bool
  width :: "32 word"
  height :: "32 word"
  format :: "32 word"
  peerlist :: "peer list"

text \<open>
  Everything the listener does to the outside world is recorded, in order, in a trace:
  \<open>parent->sendMessage\<close>, \<open>parent->queueOutgoingMessage\<close>, \<open>shm_open\<close>, \<open>mmap\<close>,
  \<open>LOG(WARNING)\<close>, and the two calls a listener can make on a peer. (The verbose
  \<open>VLOG\<close> diagnostics are left out.)
\<close>

datatype effect =
    SendMessage "16 word list" string
  | QueueOutgoingMessage "16 word list" string
  | ShmOpen string
  | Mmap nat int
  | LogWarning string
  | PartialDisplayUpdate peer "32 word" "32 word" "32 word" "32 word"
  | FullDisplayUpdate peer "32 word" "32 word" "32 word"

fun is_peer_call :: "effect \<Rightarrow> bool" where
  "is_peer_call (PartialDisplayUpdate p x y w h) = True"
| "is_peer_call (FullDisplayUpdate p w h f) = True"
| "is_peer_call e = False"

fun is_send :: "effect \<Rightarrow> bool" where
  "is_send (SendMessage v u) = True"
| "is_send e = False"

fun is_mapping_call :: "effect \<Rightarrow> bool" where
  "is_mapping_call (ShmOpen n) = True"
| "is_mapping_call (Mmap l fd) = True"
| "is_mapping_call e = False"

text \<open>
  What the operating system answers: the descriptor \<open>shm_open\<close> returns for a name
  (\<open>-1\<close> on failure) and the result of \<open>mmap\<close> on a descriptor (\<open>None\<close> is
  \<open>MAP_FAILED\<close>).
\<close>

record os =
  shm_open :: "string \<Rightarrow> int"
  mmap :: "int \<Rightarrow> nat option"

datatype outcome = Returned | Threw_out_of_range | Undefined_behaviour

type_synonym state = "RDPListener \<times> effect list"

subsection \<open>Helpers of the C++ library\<close>

text \<open>\<open>std::vector::at\<close> throws \<open>std::out_of_range\<close> beyond the end.\<close>

definition vector_at :: "'a list \<Rightarrow> nat \<Rightarrow> 'a option" where
  "vector_at v i = (if i < length v then Some (v ! i) else None)"

text \<open>\<open>operator<<\<close> of an \<open>int\<close> on a stream: its decimal digits.\<close>

fun dec_digits :: "nat \<Rightarrow> string" where
  "dec_digits n =
     (if n < 10 then [''0123456789'' ! n]
      else dec_digits (n div 10) @ [''0123456789'' ! (n mod 10)])"

declare dec_digits.simps [simp del]

definition string_of_int :: "int \<Rightarrow> string" where
  "string_of_int i = (if i < 0 then ''-'' @ dec_digits (nat (- i)) else dec_digits (nat i))"

subsection \<open>Construction\<close>

text \<open>
  The constructor's initialiser list sets \<open>shm_buffer\<close>, \<open>port\<close>, \<open>uuid\<close>,
  \<open>vm_id\<close>, \<open>authenticating\<close>, \<open>targetFPS = 30\<close> and an empty
  \<open>credential_path\<close>; its body clears \<open>stop\<close>. \<open>width\<close>, \<open>height\<close> and
  \<open>format\<close> are not initialised: their first values are whatever the memory holds,
  passed in here as \<open>junk\<close>. When \<open>shadow_server_new\<close> fails, \<open>LOG(FATAL)\<close>
  ends the process and no listener exists.
\<close>

definition RDPListener_new ::
  "string \<Rightarrow> int \<Rightarrow> 16 word \<Rightarrow> bool \<Rightarrow> bool \<Rightarrow> 32 word \<times> 32 word \<times> 32 word \<Rightarrow> RDPListener option" where
  "RDPListener_new uuid' vm_id' port' auth server_allocated junk =
     (if server_allocated then
        Some \<lparr> shm_buffer = None, port = port', uuid = uuid', vm_id = vm_id',
               authenticating = auth, targetFPS = 30, credential_path = [],
               stop = False, width = fst junk, height = fst (snd junk),
               format = snd (snd junk), peerlist = [] \<rparr>
      else None)"

subsection \<open>Outgoing and incoming events\<close>

text \<open>\<open>processOutgoingMessage\<close> queues the vector with the listener's uuid.\<close>

definition processOutgoingMessage :: "16 word list \<Rightarrow> state \<Rightarrow> outcome \<times> state" where
  "processOutgoingMessage vec s =
     (Returned, (fst s, snd s @ [QueueOutgoingMessage vec (uuid (fst s))]))"

text \<open>
  \<open>processDisplayUpdate\<close>: the four fields are read with \<open>at\<close> (and so must be
  there), the peer broadcast and the frame-rate update are commented out in the source,
  and the acknowledgement \<open>[DISPLAY_UPDATE_COMPLETE, 1, targetFPS]\<close> is handed to
  \<open>parent->sendMessage\<close> as a vector of \<open>uint16_t\<close>.
\<close>

definition processDisplayUpdate :: "32 word list \<Rightarrow> state \<Rightarrow> outcome \<times> state" where
  "processDisplayUpdate msg s =
     (case vector_at msg 1 of None \<Rightarrow> (Threw_out_of_range, s) | Some x \<Rightarrow>
     (case vector_at msg 2 of None \<Rightarrow> (Threw_out_of_range, s) | Some y \<Rightarrow>
     (case vector_at msg 3 of None \<Rightarrow> (Threw_out_of_range, s) | Some w \<Rightarrow>
     (case vector_at msg 4 of None \<Rightarrow> (Threw_out_of_range, s) | Some h \<Rightarrow>
        (let vec = [ucast DISPLAY_UPDATE_COMPLETE, 1, ucast (targetFPS (fst s))]
         in (Returned, (fst s, snd s @ [SendMessage vec (uuid (fst s))])))))))"

definition shm_size :: nat where
  "shm_size = 4096 * 2048 * 4"

text \<open>
  \<open>processDisplaySwitch\<close>: width, height and format are read first (indices 2, 3, 1).
  Only when no buffer is mapped yet, the object \<open>/<vm_id>.rdpmux\<close> is opened and
  mapped; when \<open>mmap\<close> fails a warning is logged and the function returns. Otherwise
  the three fields are stored. The broadcast to the peers is commented out in the source.
\<close>

definition processDisplaySwitch :: "os \<Rightarrow> 32 word list \<Rightarrow> state \<Rightarrow> outcome \<times> state" where
  "processDisplaySwitch sys msg s =
     (case vector_at msg 2 of None \<Rightarrow> (Threw_out_of_range, s) | Some displayWidth \<Rightarrow>
     (case vector_at msg 3 of None \<Rightarrow> (Threw_out_of_range, s) | Some displayHeight \<Rightarrow>
     (case vector_at msg 1 of None \<Rightarrow> (Threw_out_of_range, s) | Some displayFormat \<Rightarrow>
        (let store = (\<lambda>L. L\<lparr>width := displayWidth, height := displayHeight,
                              format := displayFormat\<rparr>)
         in (case shm_buffer (fst s) of
               Some b \<Rightarrow> (Returned, (store (fst s), snd s))
             | None \<Rightarrow>
                (let name = ''/'' @ string_of_int (vm_id (fst s)) @ ''.rdpmux'';
                     shim_fd = shm_open sys name;
                     tr = snd s @ [ShmOpen name, Mmap shm_size shim_fd]
                 in (case mmap sys shim_fd of
                       None \<Rightarrow> (Returned, (fst s, tr @ [LogWarning ''mmap() failed'']))
                     | Some b \<Rightarrow>
                         (Returned, (store ((fst s)\<lparr>shm_buffer := Some b\<rparr>), tr)))))))))"

text \<open>
  \<open>processIncomingMessage\<close> looks at \<open>rvec[0]\<close> (undefined on an empty vector) and
  dispatches; it does not read the stop flag.
\<close>

definition processIncomingMessage :: "os \<Rightarrow> 32 word list \<Rightarrow> state \<Rightarrow> outcome \<times> state" where
  "processIncomingMessage sys rvec s =
     (if rvec = [] then (Undefined_behaviour, s)
      else if rvec ! 0 = DISPLAY_UPDATE then processDisplayUpdate rvec s
      else if rvec ! 0 = DISPLAY_SWITCH then processDisplaySwitch sys rvec s
      else if rvec ! 0 = SHUTDOWN then (Returned, ((fst s)\<lparr>stop := True\<rparr>, snd s))
      else (Returned, (fst s, snd s @ [LogWarning ''Invalid message type sent.''])))"

subsection \<open>Peers and configuration\<close>

text \<open>The whole body of \<open>registerPeer\<close> is commented out in the source.\<close>

definition registerPeer :: "peer \<Rightarrow> state \<Rightarrow> outcome \<times> state" where
  "registerPeer p s = (Returned, s)"

text \<open>
  \<open>unregisterPeer\<close> erases the position \<open>std::find\<close> returns; for a peer that is not
  in the list that position is \<open>end()\<close>, and erasing it is undefined.
\<close>

definition unregisterPeer :: "peer \<Rightarrow> state \<Rightarrow> outcome \<times> state" where
  "unregisterPeer p s =
     (if p \<in> set (peerlist (fst s))
      then (Returned, ((fst s)\<lparr>peerlist := remove1 p (peerlist (fst s))\<rparr>, snd s))
      else (Undefined_behaviour, s))"

text \<open>The two methods of \<open>on_method_call\<close>, with parameters of the declared types.\<close>

definition SetCredentialFile :: "string \<Rightarrow> state \<Rightarrow> outcome \<times> state" where
  "SetCredentialFile path s = (Returned, ((fst s)\<lparr>credential_path := path\<rparr>, snd s))"

definition SetAuthentication :: "bool \<Rightarrow> state \<Rightarrow> outcome \<times> state" where
  "SetAuthentication auth s = (Returned, ((fst s)\<lparr>authenticating := auth\<rparr>, snd s))"

subsection \<open>Runs of a listener\<close>

text \<open>
  The operations that reach a listener after its construction, and a run of them. The
  answers of the operating system may differ from one event to the next, so each
  incoming event carries them. A run ends at the first operation that does not return.
\<close>

datatype operation =
    Incoming os "32 word list"
  | Outgoing "16 word list"
  | RegisterPeer peer
  | UnregisterPeer peer
  | CredentialFile string
  | Authentication bool

fun step :: "operation \<Rightarrow> state \<Rightarrow> outcome \<times> state" where
  "step (Incoming sys rvec) s = processIncomingMessage sys rvec s"
| "step (Outgoing vec) s = processOutgoingMessage vec s"
| "step (RegisterPeer p) s = registerPeer p s"
| "step (UnregisterPeer p) s = unregisterPeer p s"
| "step (CredentialFile path) s = SetCredentialFile path s"
| "step (Authentication auth) s = SetAuthentication auth s"

fun run :: "operation list \<Rightarrow> state \<Rightarrow> outcome \<times> state" where
  "run [] s = (Returned, s)"
| "run (a # as) s =
     (case step a s of
        (Returned, s') \<Rightarrow> run as s'
      | (Threw_out_of_range, s') \<Rightarrow> (Threw_out_of_range, s')
      | (Undefined_behaviour, s') \<Rightarrow> (Undefined_behaviour, s'))"

text \<open>
  The mappings a run creates: the \<open>mmap\<close> calls its steps add to the trace that
  succeed. A call is judged by the operating system of the event that made it; a call
  made by any other operation would count as well.
\<close>

fun created :: "operation \<Rightarrow> effect \<Rightarrow> bool" where
  "created (Incoming sys rvec) (Mmap len fd) = (mmap sys fd \<noteq> None)"
| "created a (Mmap len fd) = True"
| "created a e = False"

fun maps_created :: "operation list \<Rightarrow> state \<Rightarrow> nat" where
  "maps_created [] s = 0"
| "maps_created (a # as) s =
     (case step a s of
        (Returned, s') \<Rightarrow>
          length (filter (created a) (drop (length (snd s)) (snd s'))) + maps_created as s'
      | (Threw_out_of_range, s') \<Rightarrow>
          length (filter (created a) (drop (length (snd s)) (snd s')))
      | (Undefined_behaviour, s') \<Rightarrow>
          length (filter (created a) (drop (length (snd s)) (snd s'))))"

section \<open>The wire codec (msgpack.c)\<close>

subsection \<open>Buffers and the cursor\<close>

text \<open>
  \<open>nnStr\<close> wraps a byte buffer in a cursor. Its \<open>buf\<close> pointer is null, or points to a
  block of memory whose bytes are listed in full (the uninitialised ones too), or
  dangles after the block was freed. Modelled from the spec: the declaration of
  \<open>nnStr\<close> is not among the sources; \<open>size\<close> and \<open>pos\<close> are taken to be \<open>int\<close>,
  the type \<open>mux_nnstr_init\<close> receives the size in.
\<close>

type_synonym byte = "8 word"

datatype buffer = Null | Block "byte list" | Freed

record nnStr =
  buf :: buffer
  size' :: int
  pos :: int

text \<open>
  The conversions C inserts between \<open>int\<close> (32 bits) and \<open>size_t\<close> (64 bits) where
  the code mixes them.
\<close>

definition to_size_t :: "int \<Rightarrow> nat" where
  "to_size_t i = nat (i mod 2 ^ 64)"

definition to_int :: "nat \<Rightarrow> int" where
  "to_int n = (let m = int n mod 2 ^ 32 in if m < 2 ^ 31 then m else m - 2 ^ 32)"

definition mux_nnstr_init :: "buffer \<Rightarrow> int \<Rightarrow> nnStr" where
  "mux_nnstr_init b sz = \<lparr> buf = b, size' = sz, pos = 0 \<rparr>"




text \<open>
  \<open>mux_msg_reader\<close> returns false (\<open>None\<close>) when the request passes the end; otherwise
  it copies \<open>limit\<close> bytes from the cursor and advances it. The one entry point that
  reads wraps the caller's buffer, so the pointer is a block; for a null or freed
  pointer, where C would copy through it, the model answers \<open>None\<close> as well. The
  copy stays inside the block when the size is the block's length and the cursor is not
  negative, which is what the facts about reading assume.
\<close>

definition mux_msg_reader :: "nnStr \<Rightarrow> nat \<Rightarrow> (byte list \<times> nnStr) option" where
  "mux_msg_reader msg limit =
     (if (to_size_t (pos msg) + limit) mod 2 ^ 64 > to_size_t (size' msg) then None
      else (case buf msg of
              Block b \<Rightarrow>
                Some (take limit (drop (nat (pos msg)) b),
                      msg\<lparr>pos := to_int (to_size_t (pos msg) + limit)\<rparr>)
            | Null \<Rightarrow> None
            | Freed \<Rightarrow> None))"

subsection \<open>The packed-array primitives\<close>

text \<open>
  Modelled from the spec: the primitives of the packed-array library (\<open>cmp_write_array\<close>,
  \<open>cmp_write_uint\<close>, \<open>cmp_read_array\<close>, \<open>cmp_read_uint\<close>) are not among the sources.
  The wire format is MessagePack's, as the external-interfaces section requires:
  unsigned integers in the narrowest encoding, multi-byte values big-endian, a marker
  byte first (one to five bytes for a 32-bit value). Every byte goes through the writer
  and reader above, marker and payload in separate calls.
\<close>

fun be_bytes :: "nat \<Rightarrow> nat \<Rightarrow> byte list" where
  "be_bytes 0 v = []"
| "be_bytes (Suc n) v = of_nat (v div 256 ^ n) # be_bytes n v"

definition be_value :: "byte list \<Rightarrow> nat" where
  "be_value bs = foldl (\<lambda>a b. a * 256 + unat b) 0 bs"




definition cmp_read_payload :: "nnStr \<Rightarrow> nat \<Rightarrow> (32 word \<times> nnStr) option" where
  "cmp_read_payload msg n =
     (case mux_msg_reader msg n of
        None \<Rightarrow> None
      | Some (d, m) \<Rightarrow> Some (of_nat (be_value d), m))"

definition cmp_read_uint :: "nnStr \<Rightarrow> (32 word \<times> nnStr) option" where
  "cmp_read_uint msg =
     (case mux_msg_reader msg 1 of
        Some ([marker], m1) \<Rightarrow>
          (if marker \<le> 0x7F then Some (ucast marker, m1)
           else if marker = 0xCC then cmp_read_payload m1 1
           else if marker = 0xCD then cmp_read_payload m1 2
           else if marker = 0xCE then cmp_read_payload m1 4
           else None)
      | _ \<Rightarrow> None)"

definition cmp_read_array :: "nnStr \<Rightarrow> (32 word \<times> nnStr) option" where
  "cmp_read_array msg =
     (case mux_msg_reader msg 1 of
        Some ([marker], m1) \<Rightarrow>
          (if 0x90 \<le> marker \<and> marker \<le> 0x9F then Some (ucast (marker - 0x90), m1)
           else if marker = 0xDC then cmp_read_payload m1 2
           else if marker = 0xDD then cmp_read_payload m1 4
           else None)
      | _ \<Rightarrow> None)"

subsection \<open>Outgoing events (the shim's encoder)\<close>









subsection \<open>Incoming events (the shim's decoder)\<close>

text \<open>
  What the decoder can touch: the frame rate of the display (\<open>display->framerate\<close>) and,
  in order, the callbacks it fires, the lines it prints and the release of the buffer.
\<close>

datatype shim_effect =
    Receive_kb "32 word" "32 word"
  | Receive_mouse "32 word" "32 word" "32 word"
  | Printf string
  | Printf_error string
  | Free_buf

record shim =
  framerate :: "32 word"
  events :: "shim_effect list"

fun is_callback :: "shim_effect \<Rightarrow> bool" where
  "is_callback (Receive_kb k f) = True"
| "is_callback (Receive_mouse x y f) = True"
| "is_callback e = False"

definition emit :: "shim_effect \<Rightarrow> shim \<Rightarrow> shim" where
  "emit e st = st\<lparr>events := events st @ [e]\<rparr>"

definition mux_process_incoming_kb_msg :: "nnStr \<Rightarrow> shim \<Rightarrow> shim" where
  "mux_process_incoming_kb_msg cmp st =
     (case cmp_read_uint cmp of
        None \<Rightarrow> emit (Printf_error ''flags wasn't read properly'') st
      | Some (keycode, c1) \<Rightarrow>
          (case cmp_read_uint c1 of
             None \<Rightarrow> emit (Printf_error ''keycode wasn't read properly'') st
           | Some (flags, c2) \<Rightarrow> emit (Receive_kb keycode flags) st))"

definition mux_process_incoming_mouse_msg :: "nnStr \<Rightarrow> shim \<Rightarrow> shim" where
  "mux_process_incoming_mouse_msg cmp st =
     (case cmp_read_uint cmp of
        None \<Rightarrow> emit (Printf_error ''mouse_x wasn't read properly'') st
      | Some (mouse_x, c1) \<Rightarrow>
          (case cmp_read_uint c1 of
             None \<Rightarrow> emit (Printf_error ''mouse_y wasn't read properly'') st
           | Some (mouse_y, c2) \<Rightarrow>
               (case cmp_read_uint c2 of
                  None \<Rightarrow> emit (Printf_error ''flags uint wasn't read properly'') st
                | Some (flags, c3) \<Rightarrow> emit (Receive_mouse mouse_x mouse_y flags) st)))"

definition mux_process_incoming_complete_msg :: "nnStr \<Rightarrow> shim \<Rightarrow> shim" where
  "mux_process_incoming_complete_msg cmp st =
     (case cmp_read_uint cmp of
        None \<Rightarrow> emit (Printf_error ''success variable didn't work'') st
      | Some (success, c1) \<Rightarrow>
          (if success \<noteq> 1 then emit (Printf_error ''Unsuccessful update_complete'') st
           else (case cmp_read_uint c1 of
                   None \<Rightarrow> emit (Printf_error ''couldn't read framerate'') st
                 | Some (new_framerate, c2) \<Rightarrow> st\<lparr>framerate := new_framerate\<rparr>)))"

text \<open>
  \<open>mux_process_incoming_msg\<close> wraps the caller's buffer, reads the array header (its
  length is not used) and the type, and dispatches. \<open>DISPLAY_UPDATE_COMPLETE\<close> has an
  empty case. The buffer is freed on every path that got as far as the dispatch.
\<close>

definition mux_process_incoming_msg :: "byte list \<Rightarrow> int \<Rightarrow> shim \<Rightarrow> shim" where
  "mux_process_incoming_msg b nbytes st =
     (let msg = mux_nnstr_init (Block b) nbytes in
      (case cmp_read_array msg of
         None \<Rightarrow> st
       | Some (array_size, c1) \<Rightarrow>
           (case cmp_read_uint c1 of
              None \<Rightarrow> st
            | Some (msg_type, c2) \<Rightarrow>
                emit Free_buf
                  (if msg_type = MOUSE then
                     mux_process_incoming_mouse_msg c2
                       (emit (Printf ''Processing incoming mouse msg'') st)
                   else if msg_type = KEYBOARD then
                     mux_process_incoming_kb_msg c2
                       (emit (Printf ''Processing incoming kb msg'') st)
                   else if msg_type = DISPLAY_UPDATE_COMPLETE then st
                   else emit (Printf_error ''Invalid message type'') st))))"

section \<open>Definitions that follow the specification's words\<close>

text \<open>
  Modelled from the spec: the decoder of the multiplexer side is not among the sources
  (the listener receives an already decoded vector). The codec section words it: read
  an array header, whose length is ignored; read the tag; read exactly the number of
  unsigned integers the data-model table gives for that tag. It fails with
  \<open>Truncated\<close> when the stream ends inside the event, with \<open>BadTag\<close> when the tag
  is outside the table, and with \<open>BadType\<close> when the value met is not an unsigned
  integer of at most 32 bits (for the header: not an array). The event is returned as
  its array, tag first. The bytes are read with the primitives and the reader above; a
  read they refuse is \<open>Truncated\<close> when the bytes ran out (the marker, or the
  payload a marker announces) and \<open>BadType\<close> when the marker is of another type.
\<close>

datatype decode_error = Truncated | BadTag | BadType

definition field_count :: "32 word \<Rightarrow> nat option" where
  "field_count tag =
     (if tag = DISPLAY_UPDATE then Some 4
      else if tag = DISPLAY_SWITCH then Some 3
      else if tag = DISPLAY_UPDATE_COMPLETE then Some 2
      else if tag = MOUSE then Some 3
      else if tag = KEYBOARD then Some 2
      else if tag = SHUTDOWN then Some 0
      else None)"

definition spec_read_array :: "nnStr \<Rightarrow> decode_error + (32 word \<times> nnStr)" where
  "spec_read_array msg =
     (case cmp_read_array msg of
        Some r \<Rightarrow> Inr r
      | None \<Rightarrow>
          (case mux_msg_reader msg 1 of
             Some ([marker], m1) \<Rightarrow>
               (if marker = 0xDC \<or> marker = 0xDD then Inl Truncated else Inl BadType)
           | _ \<Rightarrow> Inl Truncated))"

definition spec_read_uint :: "nnStr \<Rightarrow> decode_error + (32 word \<times> nnStr)" where
  "spec_read_uint msg =
     (case cmp_read_uint msg of
        Some r \<Rightarrow> Inr r
      | None \<Rightarrow>
          (case mux_msg_reader msg 1 of
             Some ([marker], m1) \<Rightarrow>
               (if marker = 0xCC \<or> marker = 0xCD \<or> marker = 0xCE then Inl Truncated
                else Inl BadType)
           | _ \<Rightarrow> Inl Truncated))"

fun spec_read_fields :: "nat \<Rightarrow> nnStr \<Rightarrow> decode_error + 32 word list" where
  "spec_read_fields 0 msg = Inr []"
| "spec_read_fields (Suc n) msg =
     (case spec_read_uint msg of
        Inl e \<Rightarrow> Inl e
      | Inr (v, m) \<Rightarrow>
          (case spec_read_fields n m of Inl e \<Rightarrow> Inl e | Inr vs \<Rightarrow> Inr (v # vs)))"

definition decode :: "byte list \<Rightarrow> int \<Rightarrow> decode_error + 32 word list" where
  "decode b nbytes =
     (case spec_read_array (mux_nnstr_init (Block b) nbytes) of
        Inl e \<Rightarrow> Inl e
      | Inr (n, m) \<Rightarrow>
          (case spec_read_uint m of
             Inl e \<Rightarrow> Inl e
           | Inr (tag, m') \<Rightarrow>
               (case field_count tag of
                  None \<Rightarrow> Inl BadTag
                | Some k \<Rightarrow>
                    (case spec_read_fields k m' of
                       Inl e \<Rightarrow> Inl e
                     | Inr vs \<Rightarrow> Inr (tag # vs)))))"

text \<open>
  The frame-rate rule as the specification words it: per peer, the running average of
  the target and the peer's capture rate, clamped to 3..30.
\<close>

definition spec_average :: "32 word \<Rightarrow> 32 word \<Rightarrow> 32 word" where
  "spec_average target captureFps =
     (let a = (target + captureFps) div 2 in if a < 3 then 3 else if 30 < a then 30 else a)"

definition spec_targetFPS :: "32 word \<Rightarrow> 32 word list \<Rightarrow> 32 word" where
  "spec_targetFPS target captures = foldl spec_average target captures"

section \<open>Concrete values for the scenarios\<close>

text \<open>
  The listener of the end-to-end scenarios (numeric id 42), an operating system on which
  the shared-memory object can be opened and mapped, and one on which it cannot.
\<close>

definition scenario_listener :: RDPListener where
  "scenario_listener =
     \<lparr> shm_buffer = None, port = 3389, uuid = ''vm-42'', vm_id = 42,
       authenticating = False, targetFPS = 30, credential_path = [],
       stop = False, width = 0, height = 0, format = 0, peerlist = [] \<rparr>"

definition os_maps :: os where
  "os_maps = \<lparr> shm_open = (\<lambda>name. 3), mmap = (\<lambda>fd. if fd < 0 then None else Some 4096) \<rparr>"

definition os_fails :: os where
  "os_fails = \<lparr> shm_open = (\<lambda>name. - 1), mmap = (\<lambda>fd. None) \<rparr>"




section \<open>Notions used in the proofs about the codec\<close>




section \<open>Facts about the listener\<close>

lemmas msg_type_defs =
  DISPLAY_UPDATE_def DISPLAY_SWITCH_def DISPLAY_UPDATE_COMPLETE_def
  MOUSE_def KEYBOARD_def SHUTDOWN_def

subsection \<open>What each operation leaves alone\<close>

lemma processDisplayUpdate_frame:
  "processDisplayUpdate msg s = (oc, s') \<Longrightarrow>
     fst s' = fst s \<and>
     (\<exists>e. snd s' = snd s @ e \<and> filter is_peer_call e = [] \<and> filter is_mapping_call e = [])"
  by (auto simp: processDisplayUpdate_def Let_def split: option.splits)

lemma processDisplaySwitch_frame:
  "processDisplaySwitch sys msg s = (oc, s') \<Longrightarrow>
     targetFPS (fst s') = targetFPS (fst s) \<and> peerlist (fst s') = peerlist (fst s) \<and>
     stop (fst s') = stop (fst s) \<and> uuid (fst s') = uuid (fst s) \<and>
     (\<exists>e. snd s' = snd s @ e \<and> filter is_peer_call e = [] \<and> filter is_send e = [])"
  by (auto simp: processDisplaySwitch_def Let_def split: option.splits)

lemma processIncomingMessage_frame:
  "processIncomingMessage sys rvec s = (oc, s') \<Longrightarrow>
     targetFPS (fst s') = targetFPS (fst s) \<and> peerlist (fst s') = peerlist (fst s) \<and>
     (stop (fst s) \<longrightarrow> stop (fst s')) \<and>
     filter is_peer_call (snd s') = filter is_peer_call (snd s)"
  by (auto simp: processIncomingMessage_def
        dest!: processDisplayUpdate_frame processDisplaySwitch_frame split: if_splits)

lemma step_frame:
  "step a s = (oc, s') \<Longrightarrow>
     targetFPS (fst s') = targetFPS (fst s) \<and>
     (peerlist (fst s) = [] \<longrightarrow> peerlist (fst s') = []) \<and>
     filter is_peer_call (snd s') = filter is_peer_call (snd s)"
  by (cases a)
     (auto simp: registerPeer_def unregisterPeer_def processOutgoingMessage_def
        SetCredentialFile_def SetAuthentication_def
        dest: processIncomingMessage_frame split: if_splits)

lemma run_frame:
  "run ops s = (oc, s') \<Longrightarrow>
     targetFPS (fst s') = targetFPS (fst s) \<and>
     (peerlist (fst s) = [] \<longrightarrow> peerlist (fst s') = []) \<and>
     filter is_peer_call (snd s') = filter is_peer_call (snd s)"
proof (induction ops arbitrary: s)
  case Nil
  then show ?case by simp
next
  case (Cons a ops)
  obtain o1 s1 where st: "step a s = (o1, s1)" by (cases "step a s")
  note f1 = step_frame[OF st]
  show ?case
  proof (cases o1)
    case Returned
    with Cons.prems st have "run ops s1 = (oc, s')" by simp
    from Cons.IH[OF this] f1 show ?thesis by simp
  next
    case Threw_out_of_range
    with Cons.prems st have "s' = s1" by simp
    with f1 show ?thesis by simp
  next
    case Undefined_behaviour
    with Cons.prems st have "s' = s1" by simp
    with f1 show ?thesis by simp
  qed
qed

lemma processIncomingMessage_mapped:
  "shm_buffer (fst s) = Some b \<Longrightarrow> processIncomingMessage sys rvec s = (oc, s') \<Longrightarrow>
     shm_buffer (fst s') = Some b \<and>
     filter is_mapping_call (snd s') = filter is_mapping_call (snd s)"
  by (auto simp: processIncomingMessage_def processDisplaySwitch_def processDisplayUpdate_def Let_def
        split: if_splits option.splits)

lemma step_mapped:
  "shm_buffer (fst s) = Some b \<Longrightarrow> step a s = (oc, s') \<Longrightarrow>
     shm_buffer (fst s') = Some b \<and>
     filter is_mapping_call (snd s') = filter is_mapping_call (snd s)"
  by (cases a)
     (auto simp: registerPeer_def unregisterPeer_def processOutgoingMessage_def
        SetCredentialFile_def SetAuthentication_def
        dest: processIncomingMessage_mapped split: if_splits)

lemma run_mapped:
  "shm_buffer (fst s) = Some b \<Longrightarrow> run ops s = (oc, s') \<Longrightarrow>
     shm_buffer (fst s') = Some b \<and>
     filter is_mapping_call (snd s') = filter is_mapping_call (snd s)"
proof (induction ops arbitrary: s)
  case Nil
  then show ?case by simp
next
  case (Cons a ops)
  obtain o1 s1 where st: "step a s = (o1, s1)" by (cases "step a s")
  note f1 = step_mapped[OF Cons.prems(1) st]
  show ?case
  proof (cases o1)
    case Returned
    with Cons.prems st have "run ops s1 = (oc, s')" by simp
    from Cons.IH[OF _ this] f1 show ?thesis by simp
  next
    case Threw_out_of_range
    with Cons.prems st have "s' = s1" by simp
    with f1 show ?thesis by simp
  next
    case Undefined_behaviour
    with Cons.prems st have "s' = s1" by simp
    with f1 show ?thesis by simp
  qed
qed

lemma stop_irrelevant:
  assumes "stop L" and "processIncomingMessage sys rvec (L, tr) = (oc, (L', tr'))"
  shows "\<exists>L0. processIncomingMessage sys rvec (L\<lparr>stop := False\<rparr>, tr) = (oc, (L0, tr')) \<and>
              L' = L0\<lparr>stop := True\<rparr>"
  using assms
  by (cases L)
     (auto simp: processIncomingMessage_def processDisplayUpdate_def processDisplaySwitch_def
        Let_def split: if_splits option.splits)

lemma new_listener_fields:
  "RDPListener_new u v p a srv junk = Some L0 \<Longrightarrow>
     targetFPS L0 = 30 \<and> peerlist L0 = [] \<and> shm_buffer L0 = None \<and> \<not> stop L0"
  by (auto simp: RDPListener_new_def split: if_splits)

lemma scenario_name: "string_of_int 42 = ''42''"
  by (simp add: string_of_int_def dec_digits.simps)

lemmas scenario_defs =
  scenario_listener_def os_maps_def os_fails_def processIncomingMessage_def
  processDisplaySwitch_def processDisplayUpdate_def vector_at_def msg_type_defs
  registerPeer_def scenario_name shm_size_def

subsection \<open>Display updates and the peers\<close>

text \<open>
  The first scenario on the code: two peers are registered and
  \<open>DisplayUpdate(10, 20, 100, 200)\<close> arrives. The only effect is the acknowledgement;
  no peer receives a partial update. The same holds for a listener whose peer list
  holds the two peers.
\<close>

theorem displayUpdate_broadcast_counterexample:
  "run [RegisterPeer 1, RegisterPeer 2, Incoming os_maps [DISPLAY_UPDATE, 10, 20, 100, 200]]
       (scenario_listener, []) =
     (Returned, (scenario_listener, [SendMessage [2, 1, 30] ''vm-42'']))
   \<and> PartialDisplayUpdate 1 10 20 100 200 \<notin>
       set (snd (snd (run [RegisterPeer 1, RegisterPeer 2,
                           Incoming os_maps [DISPLAY_UPDATE, 10, 20, 100, 200]] (scenario_listener, []))))
   \<and> processIncomingMessage os_maps [DISPLAY_UPDATE, 10, 20, 100, 200]
        (scenario_listener\<lparr>peerlist := [1, 2]\<rparr>, []) =
     (Returned, (scenario_listener\<lparr>peerlist := [1, 2]\<rparr>, [SendMessage [2, 1, 30] ''vm-42'']))"
  by (simp add: scenario_defs)

text \<open>
  Claim C2, as amended: processing an incoming DisplayUpdate makes no partial-display
  update call (and no other call) on any peer, whatever the peer set holds, and leaves
  the listener as it was; this holds for every message tagged DisplayUpdate and every
  way the processing ends. When the event has its four fields (the vector has at least
  five elements) the processing returns and its only effect is one message
  \<open>[DisplayUpdateComplete, 1, targetFPS]\<close> handed to the worker under the listener's
  uuid; with fewer elements it ends in the out-of-range error with no effect at all.
\<close>

theorem displayUpdate_no_peer_call:
  assumes "rvec \<noteq> []" and "rvec ! 0 = DISPLAY_UPDATE"
      and "processIncomingMessage sys rvec (L, tr) = (oc, (L', tr'))"
  shows "L' = L \<and> filter is_peer_call tr' = filter is_peer_call tr
         \<and> (\<forall>p x y w h. PartialDisplayUpdate p x y w h \<in> set tr' \<longrightarrow>
                PartialDisplayUpdate p x y w h \<in> set tr)
         \<and> (oc, tr') =
             (if length rvec < 5 then (Threw_out_of_range, tr)
              else (Returned,
                    tr @ [SendMessage [ucast DISPLAY_UPDATE_COMPLETE, 1, ucast (targetFPS L)]
                            (uuid L)]))"
proof -
  from assms have du: "processDisplayUpdate rvec (L, tr) = (oc, (L', tr'))"
    by (simp add: processIncomingMessage_def)
  from processDisplayUpdate_frame[OF du]
  obtain e where e: "L' = L" "tr' = tr @ e" "filter is_peer_call e = []" by auto
  have "\<And>c. c \<in> set e \<Longrightarrow> \<not> is_peer_call c"
    using e(3) by (simp add: filter_empty_conv)
  then have "\<And>p x y w h. PartialDisplayUpdate p x y w h \<notin> set e" by fastforce
  moreover have "(oc, tr') =
             (if length rvec < 5 then (Threw_out_of_range, tr)
              else (Returned,
                    tr @ [SendMessage [ucast DISPLAY_UPDATE_COMPLETE, 1, ucast (targetFPS L)]
                            (uuid L)]))"
    using du by (auto simp: processDisplayUpdate_def vector_at_def split: if_splits)
  ultimately show ?thesis using e by auto
qed

theorem displayUpdate_no_peer_call_witness:
  "[DISPLAY_UPDATE, 10, 20, 100, 200] \<noteq> [] \<and> [DISPLAY_UPDATE, 10, 20, 100, 200] ! 0 = DISPLAY_UPDATE
   \<and> processIncomingMessage os_maps [DISPLAY_UPDATE, 10, 20, 100, 200]
        (scenario_listener\<lparr>peerlist := [1, 2]\<rparr>, []) =
       (Returned, (scenario_listener\<lparr>peerlist := [1, 2]\<rparr>, [SendMessage [2, 1, 30] ''vm-42'']))
   \<and> filter is_peer_call [SendMessage [2, 1, 30] ''vm-42''] = filter is_peer_call []
   \<and> (Returned, [SendMessage [2, 1, 30] ''vm-42'']) =
       (if length [DISPLAY_UPDATE, 10, 20, 100, 200] < 5 then (Threw_out_of_range, [])
        else (Returned,
              [] @ [SendMessage [ucast DISPLAY_UPDATE_COMPLETE, 1,
                                 ucast (targetFPS (scenario_listener\<lparr>peerlist := [1, 2]\<rparr>))]
                      (uuid (scenario_listener\<lparr>peerlist := [1, 2]\<rparr>))]))"
  using displayUpdate_no_peer_call
    [of "[DISPLAY_UPDATE, 10, 20, 100, 200]" os_maps "scenario_listener\<lparr>peerlist := [1, 2]\<rparr>" "[]"
        Returned "scenario_listener\<lparr>peerlist := [1, 2]\<rparr>" "[SendMessage [2, 1, 30] ''vm-42'']"]
  by (simp add: scenario_defs)

text \<open>
  Claim C3: for every listener reached from its construction by any run of operations,
  processing an incoming DisplayUpdate returns with exactly one more effect, the
  message \<open>[DisplayUpdateComplete, 1, targetFPS]\<close> handed to the worker under the
  listener's uuid; narrowing the frame rate to the 16 bits of the message does not
  change it. The hand-over happens inside the call, so before any later event.
\<close>

theorem displayUpdate_acknowledged:
  assumes "RDPListener_new u v p a srv junk = Some L0"
      and "run ops (L0, []) = (oc, (L, tr))"
  shows "processIncomingMessage sys (DISPLAY_UPDATE # x # y # w # h # rest) (L, tr) =
           (Returned,
            (L, tr @ [SendMessage [ucast DISPLAY_UPDATE_COMPLETE, 1, ucast (targetFPS L)] (uuid L)]))
         \<and> uint (ucast (targetFPS L) :: 16 word) = uint (targetFPS L)"
proof -
  from run_frame[OF assms(2)] new_listener_fields[OF assms(1)]
  have "targetFPS L = 30" by simp
  then show ?thesis
    by (simp add: processIncomingMessage_def processDisplayUpdate_def vector_at_def msg_type_defs)
qed

theorem displayUpdate_acknowledged_witness:
  "RDPListener_new ''vm-42'' 42 3389 False True (0, 0, 0) = Some scenario_listener
   \<and> run [RegisterPeer 1, RegisterPeer 2] (scenario_listener, []) = (Returned, (scenario_listener, []))
   \<and> processIncomingMessage os_maps [DISPLAY_UPDATE, 10, 20, 100, 200] (scenario_listener, []) =
       (Returned, (scenario_listener, [SendMessage [2, 1, 30] ''vm-42'']))"
  using displayUpdate_acknowledged
    [of "''vm-42''" 42 3389 False True "(0, 0, 0)" scenario_listener "[RegisterPeer 1, RegisterPeer 2]"
        Returned scenario_listener "[]" os_maps 10 20 100 200 "[]"]
  by (simp add: RDPListener_new_def scenario_listener_def registerPeer_def msg_type_defs)

subsection \<open>The target frame rate\<close>

text \<open>
  A peer reporting a capture rate of 10 would, by the averaging rule, bring the target
  from 30 to 20. On the code the target is 30 after the DisplayUpdate: for a listener on
  which the peer was registered, and for one whose peer list holds it.
\<close>

theorem targetFPS_average_counterexample:
  "spec_targetFPS (targetFPS scenario_listener) [10] = 20
   \<and> targetFPS (fst (snd (run [RegisterPeer 1, Incoming os_maps [DISPLAY_UPDATE, 10, 20, 100, 200]]
                              (scenario_listener, [])))) = 30
   \<and> targetFPS (fst (snd (processIncomingMessage os_maps [DISPLAY_UPDATE, 10, 20, 100, 200]
                              (scenario_listener\<lparr>peerlist := [1]\<rparr>, [])))) = 30"
  by (simp add: scenario_defs spec_targetFPS_def spec_average_def)

text \<open>
  Claim C4, as amended: no operation recomputes the target frame rate; it keeps the
  value 30 the constructor gives it, and so lies within 3..30 after every run of
  operations, whatever capture rates the peers report.
\<close>

theorem targetFPS_constant:
  assumes "RDPListener_new u v p a srv junk = Some L0"
      and "run ops (L0, []) = (oc, (L, tr))"
  shows "targetFPS L = 30 \<and> 3 \<le> targetFPS L \<and> targetFPS L \<le> 30"
  using run_frame[OF assms(2)] new_listener_fields[OF assms(1)] by simp

theorem targetFPS_constant_witness:
  "RDPListener_new ''vm-42'' 42 3389 False True (0, 0, 0) = Some scenario_listener
   \<and> run [RegisterPeer 1, Incoming os_maps [DISPLAY_UPDATE, 10, 20, 100, 200]] (scenario_listener, []) =
       (Returned, (scenario_listener, [SendMessage [2, 1, 30] ''vm-42'']))
   \<and> targetFPS scenario_listener = 30"
  using targetFPS_constant
    [of "''vm-42''" 42 3389 False True "(0, 0, 0)" scenario_listener
        "[RegisterPeer 1, Incoming os_maps [DISPLAY_UPDATE, 10, 20, 100, 200]]"
        Returned scenario_listener "[SendMessage [2, 1, 30] ''vm-42'']"]
  by (simp add: RDPListener_new_def scenario_defs)

subsection \<open>The framebuffer mapping\<close>

lemma step_creates:
  assumes "step a s = (oc, s')"
  shows "length (filter (created a) (drop (length (snd s)) (snd s')))
           + (if shm_buffer (fst s') = None then 1 else 0)
         \<le> (if shm_buffer (fst s) = None then 1 else (0 :: nat))"
  using assms
  by (cases a)
     (auto simp: processIncomingMessage_def processDisplayUpdate_def processDisplaySwitch_def
        processOutgoingMessage_def registerPeer_def unregisterPeer_def SetCredentialFile_def
        SetAuthentication_def Let_def split: option.splits if_splits)

lemma maps_created_bound:
  "maps_created ops s \<le> (if shm_buffer (fst s) = None then 1 else 0)"
proof (induction ops arbitrary: s)
  case Nil
  then show ?case by simp
next
  case (Cons a ops)
  obtain oc s' where st: "step a s = (oc, s')" by (cases "step a s") auto
  note sc = step_creates[OF st]
  show ?case
  proof (cases oc)
    case Returned
    with st Cons.IH[of s'] sc show ?thesis by (simp split: if_splits)
  next
    case Threw_out_of_range
    with st sc show ?thesis by (simp split: if_splits)
  next
    case Undefined_behaviour
    with st sc show ?thesis by (simp split: if_splits)
  qed
qed

text \<open>
  Claim C5: over every run of operations from a newly constructed listener, at most one
  \<open>mmap\<close> call succeeds (at most one mapping is created). The first DisplaySwitch
  whose mapping succeeds opens and maps the object once and stores the mapping with
  width, height and format. Once a framebuffer is mapped, a DisplaySwitch event opens
  and maps nothing and stores only width, height and format; and over every run of
  operations from such a listener the mapping stays the same and no further open or map
  call is made.
\<close>

theorem framebuffer_mapped_once:
  assumes "RDPListener_new u v p a srv junk = Some L0"
  shows "maps_created ops0 (L0, []) \<le> 1
         \<and> (shm_buffer L = None \<and>
              mmap sys (shm_open sys (''/'' @ string_of_int (vm_id L) @ ''.rdpmux'')) = Some b \<longrightarrow>
              processIncomingMessage sys (DISPLAY_SWITCH # fmt # w # h # rest) (L, tr) =
                (Returned,
                 (L\<lparr>shm_buffer := Some b, width := w, height := h, format := fmt\<rparr>,
                  tr @ [ShmOpen (''/'' @ string_of_int (vm_id L) @ ''.rdpmux''),
                        Mmap shm_size (shm_open sys (''/'' @ string_of_int (vm_id L) @ ''.rdpmux''))])))
         \<and> (shm_buffer M = Some c \<longrightarrow>
              processIncomingMessage sys (DISPLAY_SWITCH # fmt # w # h # rest) (M, tr) =
                (Returned, (M\<lparr>width := w, height := h, format := fmt\<rparr>, tr))
              \<and> (run ops (M, tr) = (oc, (M', tr')) \<longrightarrow>
                   shm_buffer M' = Some c \<and>
                   filter is_mapping_call tr' = filter is_mapping_call tr))"
proof -
  have "maps_created ops0 (L0, []) \<le> 1"
    using maps_created_bound[of ops0 "(L0, [])"] by (simp split: if_splits)
  moreover have "shm_buffer L = None \<and>
              mmap sys (shm_open sys (''/'' @ string_of_int (vm_id L) @ ''.rdpmux'')) = Some b \<longrightarrow>
              processIncomingMessage sys (DISPLAY_SWITCH # fmt # w # h # rest) (L, tr) =
                (Returned,
                 (L\<lparr>shm_buffer := Some b, width := w, height := h, format := fmt\<rparr>,
                  tr @ [ShmOpen (''/'' @ string_of_int (vm_id L) @ ''.rdpmux''),
                        Mmap shm_size (shm_open sys (''/'' @ string_of_int (vm_id L) @ ''.rdpmux''))]))"
    by (simp add: processIncomingMessage_def processDisplaySwitch_def vector_at_def msg_type_defs
          Let_def)
  moreover have "shm_buffer M = Some c \<longrightarrow>
      processIncomingMessage sys (DISPLAY_SWITCH # fmt # w # h # rest) (M, tr) =
           (Returned, (M\<lparr>width := w, height := h, format := fmt\<rparr>, tr))"
    by (simp add: processIncomingMessage_def processDisplaySwitch_def vector_at_def msg_type_defs)
  moreover have "shm_buffer M = Some c \<longrightarrow> run ops (M, tr) = (oc, (M', tr')) \<longrightarrow>
      shm_buffer M' = Some c \<and> filter is_mapping_call tr' = filter is_mapping_call tr"
    using run_mapped[of "(M, tr)" c ops oc "(M', tr')"] by simp
  ultimately show ?thesis by simp
qed

theorem framebuffer_mapped_once_witness:
  "RDPListener_new ''vm-42'' 42 3389 False True (0, 0, 0) = Some scenario_listener
   \<and> shm_buffer scenario_listener = None
   \<and> mmap os_maps (shm_open os_maps (''/'' @ string_of_int (vm_id scenario_listener) @ ''.rdpmux''))
       = Some 4096
   \<and> shm_buffer (scenario_listener\<lparr>shm_buffer := Some 4096, width := 1920, height := 1080, format := 7\<rparr>)
       = Some 4096
   \<and> maps_created [Incoming os_maps [1, 7, 1920, 1080], Incoming os_maps [1, 9, 800, 600]]
        (scenario_listener, []) = 1
   \<and> processIncomingMessage os_maps [DISPLAY_SWITCH, 7, 1920, 1080] (scenario_listener, []) =
      (Returned,
       (scenario_listener\<lparr>shm_buffer := Some 4096, width := 1920, height := 1080, format := 7\<rparr>,
        [ShmOpen ''/42.rdpmux'', Mmap (4096 * 2048 * 4) 3]))
   \<and> processIncomingMessage os_maps [DISPLAY_SWITCH, 9, 800, 600]
        (scenario_listener\<lparr>shm_buffer := Some 4096, width := 1920, height := 1080, format := 7\<rparr>,
         [ShmOpen ''/42.rdpmux'', Mmap (4096 * 2048 * 4) 3]) =
      (Returned,
       (scenario_listener\<lparr>shm_buffer := Some 4096, width := 800, height := 600, format := 9\<rparr>,
        [ShmOpen ''/42.rdpmux'', Mmap (4096 * 2048 * 4) 3]))
   \<and> run [Incoming os_maps [1, 9, 800, 600], Incoming os_fails [1, 9, 640, 480]]
        (scenario_listener\<lparr>shm_buffer := Some 4096, width := 1920, height := 1080, format := 7\<rparr>,
         [ShmOpen ''/42.rdpmux'', Mmap (4096 * 2048 * 4) 3]) =
      (Returned,
       (scenario_listener\<lparr>shm_buffer := Some 4096, width := 640, height := 480, format := 9\<rparr>,
        [ShmOpen ''/42.rdpmux'', Mmap (4096 * 2048 * 4) 3]))"
proof -
  have c: "RDPListener_new ''vm-42'' 42 3389 False True (0, 0, 0) = Some scenario_listener"
    by (simp add: RDPListener_new_def scenario_listener_def)
  have k: "maps_created [Incoming os_maps [1, 7, 1920, 1080], Incoming os_maps [1, 9, 800, 600]]
        (scenario_listener, []) = 1"
    by (simp add: scenario_defs)
  from framebuffer_mapped_once
    [OF c, of "[Incoming os_maps [1, 7, 1920, 1080], Incoming os_maps [1, 9, 800, 600]]"
        scenario_listener os_maps 4096 7 1920 1080 "[]" "[]"
        "scenario_listener\<lparr>shm_buffer := Some 4096, width := 1920, height := 1080, format := 7\<rparr>"
        4096
        "[Incoming os_maps [1, 9, 800, 600], Incoming os_fails [1, 9, 640, 480]]"]
  show ?thesis using c k by (simp add: scenario_defs)
qed

text \<open>
  Claim C7: when no framebuffer is mapped and \<open>mmap\<close> fails (also after a failed
  \<open>shm_open\<close>, whose descriptor is passed on unchecked), a DisplaySwitch event logs a
  warning and returns with the listener unchanged: width, height, format and the
  absent mapping are as before.
\<close>

theorem displaySwitch_mmap_failure:
  assumes "shm_buffer L = None"
      and "mmap sys (shm_open sys (''/'' @ string_of_int (vm_id L) @ ''.rdpmux'')) = None"
  shows "processIncomingMessage sys (DISPLAY_SWITCH # fmt # w # h # rest) (L, tr) =
           (Returned,
            (L, tr @ [ShmOpen (''/'' @ string_of_int (vm_id L) @ ''.rdpmux''),
                      Mmap shm_size (shm_open sys (''/'' @ string_of_int (vm_id L) @ ''.rdpmux'')),
                      LogWarning ''mmap() failed'']))"
  using assms
  by (simp add: processIncomingMessage_def processDisplaySwitch_def vector_at_def msg_type_defs Let_def)

theorem displaySwitch_mmap_failure_witness:
  "shm_buffer scenario_listener = None
   \<and> mmap os_fails (shm_open os_fails (''/'' @ string_of_int (vm_id scenario_listener) @ ''.rdpmux'')) = None
   \<and> processIncomingMessage os_fails [DISPLAY_SWITCH, 7, 1920, 1080] (scenario_listener, []) =
       (Returned, (scenario_listener, [ShmOpen ''/42.rdpmux'', Mmap (4096 * 2048 * 4) (- 1),
                                       LogWarning ''mmap() failed'']))"
  using displaySwitch_mmap_failure [of scenario_listener os_fails 7 1920 1080 "[]" "[]"]
  by (simp add: scenario_listener_def os_fails_def scenario_name shm_size_def)

subsection \<open>The stop flag\<close>

text \<open>
  After a Shutdown event has set the stop flag, a DisplayUpdate is still acknowledged
  and a DisplaySwitch still opens and maps the framebuffer and stores the dimensions.
\<close>

theorem stop_does_not_gate_counterexample:
  "run [Incoming os_maps [SHUTDOWN], Incoming os_maps [DISPLAY_UPDATE, 10, 20, 100, 200],
        Incoming os_maps [DISPLAY_SWITCH, 7, 1920, 1080]] (scenario_listener, []) =
     (Returned,
      (scenario_listener\<lparr>shm_buffer := Some 4096, stop := True, width := 1920, height := 1080, format := 7\<rparr>,
       [SendMessage [2, 1, 30] ''vm-42'', ShmOpen ''/42.rdpmux'', Mmap (4096 * 2048 * 4) 3]))"
  by (simp add: scenario_defs)

text \<open>
  Claim C6, as amended: once the stop flag is set it stays set over every later
  incoming event, and those events make no call on any peer. The flag does not gate
  them: each is processed exactly as it would be with the flag clear (a DisplayUpdate is
  acknowledged, a DisplaySwitch maps the framebuffer when none is mapped), and the only
  difference in the outcome is the flag itself.
\<close>

theorem stop_stays_set:
  assumes "stop L" and "processIncomingMessage sys rvec (L, tr) = (oc, (L', tr'))"
  shows "stop L' \<and> filter is_peer_call tr' = filter is_peer_call tr
         \<and> (\<exists>L0. processIncomingMessage sys rvec (L\<lparr>stop := False\<rparr>, tr) = (oc, (L0, tr')) \<and>
                  L' = L0\<lparr>stop := True\<rparr>)"
  using processIncomingMessage_frame[OF assms(2)] assms(1) stop_irrelevant[OF assms]
  by simp

theorem stop_stays_set_witness:
  "stop (scenario_listener\<lparr>stop := True\<rparr>)
   \<and> processIncomingMessage os_maps [DISPLAY_UPDATE, 10, 20, 100, 200] (scenario_listener\<lparr>stop := True\<rparr>, []) =
       (Returned, (scenario_listener\<lparr>stop := True\<rparr>, [SendMessage [2, 1, 30] ''vm-42'']))
   \<and> filter is_peer_call [SendMessage [2, 1, 30] ''vm-42''] = filter is_peer_call []"
  using stop_stays_set
    [of "scenario_listener\<lparr>stop := True\<rparr>" os_maps "[DISPLAY_UPDATE, 10, 20, 100, 200]" "[]"
        Returned "scenario_listener\<lparr>stop := True\<rparr>" "[SendMessage [2, 1, 30] ''vm-42'']"]
  by (simp add: scenario_defs)

subsection \<open>Registering a peer\<close>

text \<open>
  A peer registered while a framebuffer is mapped (1920 by 1080, format 7) is not in the
  peer list afterwards and receives no full-display update.
\<close>

theorem registerPeer_counterexample:
  "registerPeer 7 (scenario_listener\<lparr>shm_buffer := Some 4096, width := 1920, height := 1080, format := 7\<rparr>, []) =
     (Returned, (scenario_listener\<lparr>shm_buffer := Some 4096, width := 1920, height := 1080, format := 7\<rparr>, []))
   \<and> 7 \<notin> set (peerlist (fst (snd (registerPeer 7
         (scenario_listener\<lparr>shm_buffer := Some 4096, width := 1920, height := 1080, format := 7\<rparr>, [])))))
   \<and> FullDisplayUpdate 7 1920 1080 7 \<notin> set (snd (snd (registerPeer 7
         (scenario_listener\<lparr>shm_buffer := Some 4096, width := 1920, height := 1080, format := 7\<rparr>, []))))"
  by (simp add: scenario_defs)

text \<open>
  Claim C9, as amended: \<open>registerPeer\<close> sends the peer no display update, whether or
  not a framebuffer is mapped: on every listener reached from its construction by a run
  of operations it returns with no new effect, the trace holds no call on a peer, and
  width, height, format and the mapping are as before.
\<close>

theorem registerPeer_sends_nothing:
  assumes "RDPListener_new u v p a srv junk = Some L0"
      and "run ops (L0, []) = (oc, (L, tr))"
      and "registerPeer q (L, tr) = (oc', (L', tr'))"
  shows "oc' = Returned \<and> tr' = tr \<and> filter is_peer_call tr' = []
         \<and> width L' = width L \<and> height L' = height L \<and> format L' = format L
         \<and> shm_buffer L' = shm_buffer L"
  using run_frame[OF assms(2)] assms(3) by (auto simp: registerPeer_def)

theorem registerPeer_sends_nothing_witness:
  "RDPListener_new ''vm-42'' 42 3389 False True (0, 0, 0) = Some scenario_listener
   \<and> run [Incoming os_maps [DISPLAY_SWITCH, 7, 1920, 1080]] (scenario_listener, []) =
       (Returned, (scenario_listener\<lparr>shm_buffer := Some 4096, width := 1920, height := 1080, format := 7\<rparr>,
                   [ShmOpen ''/42.rdpmux'', Mmap (4096 * 2048 * 4) 3]))
   \<and> registerPeer 7 (scenario_listener\<lparr>shm_buffer := Some 4096, width := 1920, height := 1080, format := 7\<rparr>,
                      [ShmOpen ''/42.rdpmux'', Mmap (4096 * 2048 * 4) 3]) =
       (Returned, (scenario_listener\<lparr>shm_buffer := Some 4096, width := 1920, height := 1080, format := 7\<rparr>,
                   [ShmOpen ''/42.rdpmux'', Mmap (4096 * 2048 * 4) 3]))"
  using registerPeer_sends_nothing
    [of "''vm-42''" 42 3389 False True "(0, 0, 0)" scenario_listener
        "[Incoming os_maps [DISPLAY_SWITCH, 7, 1920, 1080]]" Returned
        "scenario_listener\<lparr>shm_buffer := Some 4096, width := 1920, height := 1080, format := 7\<rparr>"
        "[ShmOpen ''/42.rdpmux'', Mmap (4096 * 2048 * 4) 3]" 7 Returned
        "scenario_listener\<lparr>shm_buffer := Some 4096, width := 1920, height := 1080, format := 7\<rparr>"
        "[ShmOpen ''/42.rdpmux'', Mmap (4096 * 2048 * 4) 3]"]
  by (simp add: RDPListener_new_def scenario_defs)

section \<open>Facts about the codec\<close>

subsection \<open>Integer conversions\<close>



subsection \<open>Writing appends to the message\<close>





lemma length_be_bytes [simp]: "length (be_bytes k n) = k"
  by (induction k) simp_all








subsection \<open>Reading what was written\<close>











subsection \<open>Outgoing events as arrays\<close>



subsection \<open>Incoming events from their arrays\<close>









subsection \<open>The codec, direction by direction\<close>

lemma spec_read_fields_pos:
  "0 < n \<Longrightarrow> spec_read_fields n msg =
     (case spec_read_uint msg of
        Inl e \<Rightarrow> Inl e
      | Inr (v, m) \<Rightarrow>
          (case spec_read_fields (n - 1) m of Inl e \<Rightarrow> Inl e | Inr vs \<Rightarrow> Inr (v # vs)))"
  by (cases n) (auto split: sum.splits)


lemmas dec_defs = mux_process_incoming_msg_def mux_process_incoming_mouse_msg_def
  mux_process_incoming_kb_msg_def mux_process_incoming_complete_msg_def emit_def
  cmp_read_array_def cmp_read_uint_def cmp_read_payload_def mux_msg_reader_def be_value_def
  mux_nnstr_init_def msg_type_defs to_size_t_def to_int_def Let_def

lemmas spec_dec_defs = decode_def spec_read_array_def spec_read_uint_def field_count_def
  spec_read_fields_pos

text \<open>
  The decoder of the codec section on the malformed frame of the sixth scenario, on the
  same array with all four fields, on an array with a tag outside the table and on an
  array whose field is a string.
\<close>

lemma decode_examples:
  "decode [0x93, 0, 10, 20] 4 = Inl Truncated"
  "decode [0x95, 0, 10, 20, 100, 0xCC, 200] 7 = Inr [0, 10, 20, 100, 200]"
  "decode [0x93, 0, 10, 20, 100, 0xCC, 200] 7 = Inr [0, 10, 20, 100, 200]"
  "decode [0x92, 9, 1] 3 = Inl BadTag"
  "decode [0x93, 4, 0xA1, 0x61, 7] 5 = Inl BadType"
  "decode [0x93, 4, 7, 0xCD, 1] 5 = Inl Truncated"
  by (simp_all add: spec_dec_defs dec_defs)




subsection \<open>Dispatch of incoming messages\<close>

text \<open>
  Claim C10: for every incoming buffer whose array header and type can be read and
  whose type is DisplayUpdateComplete, \<open>mux_process_incoming_msg\<close> fires no callback,
  prints nothing and leaves the display's frame rate as it was; its only effect is to
  free the buffer. The payload is not read: the result does not depend on it, since
  \<open>mux_process_incoming_complete_msg\<close> is not called from the dispatch (the only
  decoding entry point).
\<close>

theorem update_complete_ignored:
  assumes "cmp_read_array (mux_nnstr_init (Block b) nbytes) = Some (n, c1)"
      and "cmp_read_uint c1 = Some (DISPLAY_UPDATE_COMPLETE, c2)"
  shows "mux_process_incoming_msg b nbytes st = st\<lparr>events := events st @ [Free_buf]\<rparr>
         \<and> framerate (mux_process_incoming_msg b nbytes st) = framerate st
         \<and> filter is_callback (events (mux_process_incoming_msg b nbytes st)) =
             filter is_callback (events st)"
  using assms
  by (simp add: mux_process_incoming_msg_def emit_def msg_type_defs)

theorem update_complete_ignored_witness:
  "cmp_read_array (mux_nnstr_init (Block [0x93, 2, 1, 25]) 4) =
      Some (3, \<lparr>buf = Block [0x93, 2, 1, 25], size' = 4, pos = 1\<rparr>)
   \<and> cmp_read_uint \<lparr>buf = Block [0x93, 2, 1, 25], size' = 4, pos = 1\<rparr> =
      Some (DISPLAY_UPDATE_COMPLETE, \<lparr>buf = Block [0x93, 2, 1, 25], size' = 4, pos = 2\<rparr>)
   \<and> mux_process_incoming_msg [0x93, 2, 1, 25] 4 \<lparr>framerate = 30, events = []\<rparr> =
      \<lparr>framerate = 30, events = [Free_buf]\<rparr>
   \<and> mux_process_incoming_complete_msg \<lparr>buf = Block [0x93, 2, 1, 25], size' = 4, pos = 2\<rparr>
        \<lparr>framerate = 30, events = []\<rparr> = \<lparr>framerate = 25, events = []\<rparr>"
proof -
  have a: "cmp_read_array (mux_nnstr_init (Block [0x93, 2, 1, 25]) 4) =
      Some (3, \<lparr>buf = Block [0x93, 2, 1, 25], size' = 4, pos = 1\<rparr>)"
    by (simp add: dec_defs)
  have b: "cmp_read_uint \<lparr>buf = Block [0x93, 2, 1, 25], size' = 4, pos = 1\<rparr> =
      Some (DISPLAY_UPDATE_COMPLETE, \<lparr>buf = Block [0x93, 2, 1, 25], size' = 4, pos = 2\<rparr>)"
    by (simp add: dec_defs)
  have c: "mux_process_incoming_complete_msg \<lparr>buf = Block [0x93, 2, 1, 25], size' = 4, pos = 2\<rparr>
        \<lparr>framerate = 30, events = []\<rparr> = \<lparr>framerate = 25, events = []\<rparr>"
    by (simp add: dec_defs)
  from update_complete_ignored[OF a b, of "\<lparr>framerate = 30, events = []\<rparr>"]
  have "mux_process_incoming_msg [0x93, 2, 1, 25] 4 \<lparr>framerate = 30, events = []\<rparr> =
      \<lparr>framerate = 30, events = [Free_buf]\<rparr>" by simp
  with a b c show ?thesis by blast
qed

subsection \<open>Truncated input\<close>





end
